theory Spec2Isabelle
  imports Complex_Main "HOL-Library.AList" "HOL-Library.Sublist" "HOL-Library.Word"
begin

section \<open>Python values\<close>

text \<open>
  The program of \<^verbatim>\<open>voice_processor.py\<close> works on the values that \<^verbatim>\<open>json.loads\<close> produces
  and on dictionaries it builds itself. A Python float is modelled by the real number it
  denotes, with the three non-finite values that the JSON parser accepts (\<^verbatim>\<open>Infinity\<close>,
  \<^verbatim>\<open>-Infinity\<close>, \<^verbatim>\<open>NaN\<close>) as constructors of their own; negative zero is identified with
  zero, which every comparison of the program does as well. In Python \<^verbatim>\<open>bool\<close> is a subclass
  of \<^verbatim>\<open>int\<close>, so the values that pass \<^verbatim>\<open>isinstance(value, (int, float))\<close> are the booleans,
  the integers and the floats: they form the type \<open>number\<close>.
\<close>

datatype pyfloat = Finite real | PosInf | NegInf | NaN

datatype number = NBool bool | NInt int | NFloat pyfloat

datatype pyval =
    PNone
  | PNum number
  | PStr string
  | PList "pyval list"
  | PDict "(string \<times> pyval) list"

text \<open>
  A dictionary keeps its keys in insertion order: an association list, read with
  \<^const>\<open>map_of\<close> and written with \<^const>\<open>AList.update\<close> (an existing key keeps its place, a
  new key goes to the end).
\<close>

type_synonym pydict = "(string \<times> pyval) list"

datatype error =
    TypeError | KeyError | ValueError | OverflowError | JSONDecodeError | RemoteError

subsection \<open>Numbers: comparison, \<^verbatim>\<open>min\<close>, \<^verbatim>\<open>max\<close>, \<^verbatim>\<open>int\<close>, multiplication\<close>

fun nval :: "number \<Rightarrow> pyfloat" where
  "nval (NBool b) = Finite (if b then 1 else 0)"
| "nval (NInt i) = Finite (of_int i)"
| "nval (NFloat f) = f"

text \<open>\<open>a < b\<close> on floats: every comparison with NaN is false.\<close>

fun flt :: "pyfloat \<Rightarrow> pyfloat \<Rightarrow> bool" where
  "flt NaN _ = False"
| "flt _ NaN = False"
| "flt (Finite x) (Finite y) = (x < y)"
| "flt (Finite x) PosInf = True"
| "flt (Finite x) NegInf = False"
| "flt PosInf _ = False"
| "flt NegInf NegInf = False"
| "flt NegInf _ = True"

text \<open>Python compares an int with a float by their exact values.\<close>

definition num_lt :: "number \<Rightarrow> number \<Rightarrow> bool" where
  "num_lt a b = flt (nval a) (nval b)"

text \<open>
  The two-argument builtins keep the first argument unless the second is strictly
  smaller (\<^verbatim>\<open>min\<close>) or strictly greater (\<^verbatim>\<open>max\<close>).
\<close>

definition py_min :: "number \<Rightarrow> number \<Rightarrow> number" where
  "py_min a b = (if num_lt b a then b else a)"

definition py_max :: "number \<Rightarrow> number \<Rightarrow> number" where
  "py_max a b = (if num_lt a b then b else a)"

text \<open>\<^verbatim>\<open>int(x)\<close> truncates a float towards zero and raises on the non-finite ones.\<close>

fun py_int :: "number \<Rightarrow> error + number" where
  "py_int (NBool b) = Inr (NInt (if b then 1 else 0))"
| "py_int (NInt i) = Inr (NInt i)"
| "py_int (NFloat (Finite r)) = Inr (NInt (if 0 \<le> r then \<lfloor>r\<rfloor> else \<lceil>r\<rceil>))"
| "py_int (NFloat PosInf) = Inl OverflowError"
| "py_int (NFloat NegInf) = Inl OverflowError"
| "py_int (NFloat NaN) = Inl ValueError"

fun fmul :: "pyfloat \<Rightarrow> pyfloat \<Rightarrow> pyfloat" where
  "fmul NaN _ = NaN"
| "fmul _ NaN = NaN"
| "fmul (Finite x) (Finite y) = Finite (x * y)"
| "fmul (Finite x) PosInf = (if x = 0 then NaN else if 0 < x then PosInf else NegInf)"
| "fmul (Finite x) NegInf = (if x = 0 then NaN else if 0 < x then NegInf else PosInf)"
| "fmul PosInf (Finite y) = (if y = 0 then NaN else if 0 < y then PosInf else NegInf)"
| "fmul NegInf (Finite y) = (if y = 0 then NaN else if 0 < y then NegInf else PosInf)"
| "fmul PosInf PosInf = PosInf"
| "fmul PosInf NegInf = NegInf"
| "fmul NegInf PosInf = NegInf"
| "fmul NegInf NegInf = PosInf"

text \<open>
  \<open>a * b\<close> on numbers: a float as soon as one operand is a float, an int otherwise.
  The product of finite floats is the exact product (rounding and overflow are not
  modelled).
\<close>

fun int_of_number :: "number \<Rightarrow> int option" where
  "int_of_number (NBool b) = Some (if b then 1 else 0)"
| "int_of_number (NInt i) = Some i"
| "int_of_number (NFloat f) = None"

definition num_mul :: "number \<Rightarrow> number \<Rightarrow> number" where
  "num_mul a b =
     (case (int_of_number a, int_of_number b) of
        (Some i, Some j) \<Rightarrow> NInt (i * j)
      | _ \<Rightarrow> NFloat (fmul (nval a) (nval b)))"

subsection \<open>Strings\<close>

text \<open>
  A string is a list of characters. \<^verbatim>\<open>str.lower\<close> is modelled on the ASCII letters,
  which is where every keyword of the program lives; \<^verbatim>\<open>k in s\<close> on strings is substring
  containment.
\<close>

definition lower_char :: "char \<Rightarrow> char" where
  "lower_char c =
     (case map_of (zip ''ABCDEFGHIJKLMNOPQRSTUVWXYZ'' ''abcdefghijklmnopqrstuvwxyz'') c of
        None \<Rightarrow> c
      | Some l \<Rightarrow> l)"

definition lower :: "string \<Rightarrow> string" where
  "lower s = map lower_char s"

fun contains :: "string \<Rightarrow> string \<Rightarrow> bool" where
  "contains w [] = (w = [])"
| "contains w (c # cs) = (prefix w (c # cs) \<or> contains w cs)"

text \<open>\<^verbatim>\<open>any(word in text_lower for word in words)\<close>\<close>

definition any_in :: "string list \<Rightarrow> string \<Rightarrow> bool" where
  "any_in words text_lower = list_ex (\<lambda>word. contains word text_lower) words"

section \<open>Parameter schema and validator\<close>

text \<open>The table \<^verbatim>\<open>constraints\<close> of \<^verbatim>\<open>validate_parameters\<close>, in its order.\<close>

definition constraints :: "(string \<times> number \<times> number) list" where
  "constraints =
     [(''seed'', NInt 0, NInt 10000),
      (''frequency'', NFloat (Finite 0.01), NFloat (Finite 1.0)),
      (''amplitude'', NFloat (Finite 0.5), NFloat (Finite 20.0)),
      (''octaves'', NInt 1, NInt 6),
      (''lacunarity'', NFloat (Finite 1.5), NFloat (Finite 3.0)),
      (''persistence'', NFloat (Finite 0.1), NFloat (Finite 0.8)),
      (''terrain_type'', NInt 0, NInt 5),
      (''erosion'', NFloat (Finite 0.0), NFloat (Finite 1.0)),
      (''plateau'', NFloat (Finite 0.0), NFloat (Finite 15.0))]"

text \<open>The table \<^verbatim>\<open>defaults\<close> of \<^verbatim>\<open>validate_parameters\<close>.\<close>

definition defaults :: "(string \<times> number) list" where
  "defaults =
     [(''seed'', NInt 42),
      (''frequency'', NFloat (Finite 0.1)),
      (''amplitude'', NFloat (Finite 5.0)),
      (''octaves'', NInt 3),
      (''lacunarity'', NFloat (Finite 2.0)),
      (''persistence'', NFloat (Finite 0.5)),
      (''terrain_type'', NInt 1),
      (''erosion'', NFloat (Finite 0.0)),
      (''plateau'', NFloat (Finite 0.0))]"

text \<open>
  \<^verbatim>\<open>key in params\<close> and \<^verbatim>\<open>params[key]\<close> for a string key, on whatever value the JSON
  parser returned: a dict looks the key up, a list tests membership and a string
  substring containment, but neither can be indexed by a string; the other values are
  not containers.
\<close>

fun py_in :: "string \<Rightarrow> pyval \<Rightarrow> error + bool" where
  "py_in key (PDict d) = Inr (map_of d key \<noteq> None)"
| "py_in key (PList xs) = Inr (PStr key \<in> set xs)"
| "py_in key (PStr s) = Inr (contains key s)"
| "py_in key PNone = Inl TypeError"
| "py_in key (PNum n) = Inl TypeError"

fun py_getitem :: "pyval \<Rightarrow> string \<Rightarrow> error + pyval" where
  "py_getitem (PDict d) key = (case map_of d key of None \<Rightarrow> Inl KeyError | Some v \<Rightarrow> Inr v)"
| "py_getitem (PList xs) key = Inl TypeError"
| "py_getitem (PStr s) key = Inl TypeError"
| "py_getitem PNone key = Inl TypeError"
| "py_getitem (PNum n) key = Inl TypeError"

text \<open>One iteration of the loop over \<^verbatim>\<open>constraints.items()\<close>.\<close>

definition validate_field ::
  "pyval \<Rightarrow> string \<times> number \<times> number \<Rightarrow> pydict \<Rightarrow> error + pydict" where
  "validate_field params c validated =
     (case c of (key, min_val, max_val) \<Rightarrow>
        (case py_in key params of
           Inl e \<Rightarrow> Inl e
         | Inr True \<Rightarrow>
             (case py_getitem params key of
                Inl e \<Rightarrow> Inl e
              | Inr (PNum value) \<Rightarrow>
                  Inr (AList.update key (PNum (py_max min_val (py_min max_val value))) validated)
              | Inr _ \<Rightarrow> Inr (AList.update key (PNum min_val) validated))
         | Inr False \<Rightarrow>
             (case map_of defaults key of
                None \<Rightarrow> Inl KeyError
              | Some d \<Rightarrow> Inr (AList.update key (PNum d) validated))))"

fun validate_loop ::
  "pyval \<Rightarrow> (string \<times> number \<times> number) list \<Rightarrow> pydict \<Rightarrow> error + pydict" where
  "validate_loop params [] validated = Inr validated"
| "validate_loop params (c # cs) validated =
     (case validate_field params c validated of
        Inl e \<Rightarrow> Inl e
      | Inr validated' \<Rightarrow> validate_loop params cs validated')"

text \<open>
  \<^verbatim>\<open>validated[key] = int(validated[key])\<close>. The entry is a number whenever the loop has
  written it; \<^verbatim>\<open>int\<close> of anything else is not needed by the program and is an error
  here.
\<close>

definition coerce_int :: "string \<Rightarrow> pydict \<Rightarrow> error + pydict" where
  "coerce_int key validated =
     (case map_of validated key of
        None \<Rightarrow> Inl KeyError
      | Some (PNum n) \<Rightarrow>
          (case py_int n of
             Inl e \<Rightarrow> Inl e
           | Inr i \<Rightarrow> Inr (AList.update key (PNum i) validated))
      | Some _ \<Rightarrow> Inl TypeError)"

definition validate_parameters :: "pyval \<Rightarrow> error + pydict" where
  "validate_parameters params =
     (case validate_loop params constraints [] of
        Inl e \<Rightarrow> Inl e
      | Inr v0 \<Rightarrow>
          (case coerce_int ''terrain_type'' v0 of
             Inl e \<Rightarrow> Inl e
           | Inr v1 \<Rightarrow>
               (case coerce_int ''seed'' v1 of
                  Inl e \<Rightarrow> Inl e
                | Inr v2 \<Rightarrow> coerce_int ''octaves'' v2)))"

section \<open>Heuristic analyzer\<close>

text \<open>
  \<^verbatim>\<open>int.from_bytes(os.urandom(4), byteorder='big') % 10000\<close>: the bytes that the random
  source returns are an argument of the model.
\<close>

definition from_bytes_big :: "8 word list \<Rightarrow> int" where
  "from_bytes_big bs = foldl (\<lambda>acc b. acc * 256 + uint b) 0 bs"

definition random_seed :: "8 word list \<Rightarrow> int" where
  "random_seed urandom = from_bytes_big urandom mod 10000"

text \<open>\<^verbatim>\<open>params[key] *= factor\<close>\<close>

definition imul :: "string \<Rightarrow> number \<Rightarrow> pydict \<Rightarrow> error + pydict" where
  "imul key factor params =
     (case map_of params key of
        None \<Rightarrow> Inl KeyError
      | Some (PNum n) \<Rightarrow> Inr (AList.update key (PNum (num_mul n factor)) params)
      | Some _ \<Rightarrow> Inl TypeError)"

text \<open>\<^verbatim>\<open>params.update({...})\<close>: the entries are written in the order of the literal.\<close>

definition dict_update :: "pydict \<Rightarrow> pydict \<Rightarrow> pydict" where
  "dict_update params entries = foldl (\<lambda>d (k, v). AList.update k v d) params entries"

definition default_params :: "8 word list \<Rightarrow> pydict" where
  "default_params urandom =
     [(''seed'', PNum (NInt (random_seed urandom))),
      (''frequency'', PNum (NFloat (Finite 0.1))),
      (''amplitude'', PNum (NFloat (Finite 5.0))),
      (''octaves'', PNum (NInt 3)),
      (''lacunarity'', PNum (NFloat (Finite 2.0))),
      (''persistence'', PNum (NFloat (Finite 0.5))),
      (''terrain_type'', PNum (NInt 1)),
      (''erosion'', PNum (NFloat (Finite 0.0))),
      (''plateau'', PNum (NFloat (Finite 0.0)))]"

text \<open>The four keyword layers of \<^verbatim>\<open>fallback_analysis\<close>, each an \<^verbatim>\<open>if\<close>/\<^verbatim>\<open>elif\<close> chain.\<close>

definition terrain_layer :: "string \<Rightarrow> pydict \<Rightarrow> pydict" where
  "terrain_layer text_lower params =
     (if any_in [''mountain'', ''mountains'', ''peak'', ''peaks''] text_lower then
        dict_update params
          [(''terrain_type'', PNum (NInt 2)),
           (''amplitude'', PNum (NFloat (Finite 15.0))),
           (''frequency'', PNum (NFloat (Finite 0.05)))]
      else if any_in [''hill'', ''hills'', ''hilly'', ''rolling''] text_lower then
        dict_update params
          [(''terrain_type'', PNum (NInt 1)),
           (''amplitude'', PNum (NFloat (Finite 8.0))),
           (''frequency'', PNum (NFloat (Finite 0.1)))]
      else if any_in [''valley'', ''valleys'', ''depression'', ''low''] text_lower then
        dict_update params
          [(''terrain_type'', PNum (NInt 3)),
           (''amplitude'', PNum (NFloat (Finite 6.0)))]
      else if any_in [''flat'', ''plain'', ''plains'', ''level''] text_lower then
        dict_update params
          [(''terrain_type'', PNum (NInt 0)),
           (''amplitude'', PNum (NFloat (Finite 1.0)))]
      else if any_in [''plateau'', ''mesa'', ''tableland''] text_lower then
        dict_update params
          [(''terrain_type'', PNum (NInt 4)),
           (''plateau'', PNum (NFloat (Finite 5.0))),
           (''amplitude'', PNum (NFloat (Finite 8.0)))]
      else params)"

definition size_layer :: "string \<Rightarrow> pydict \<Rightarrow> error + pydict" where
  "size_layer text_lower params =
     (if any_in [''large'', ''big'', ''huge'', ''massive''] text_lower then
        (case imul ''frequency'' (NFloat (Finite 0.5)) params of
           Inl e \<Rightarrow> Inl e
         | Inr params' \<Rightarrow> imul ''amplitude'' (NFloat (Finite 1.5)) params')
      else if any_in [''small'', ''tiny'', ''little'', ''mini''] text_lower then
        (case imul ''frequency'' (NFloat (Finite 2.0)) params of
           Inl e \<Rightarrow> Inl e
         | Inr params' \<Rightarrow> imul ''amplitude'' (NFloat (Finite 0.7)) params')
      else Inr params)"

definition detail_layer :: "string \<Rightarrow> pydict \<Rightarrow> pydict" where
  "detail_layer text_lower params =
     (if any_in [''rough'', ''jagged'', ''rocky'', ''detailed''] text_lower then
        AList.update ''lacunarity'' (PNum (NFloat (Finite 2.5)))
          (AList.update ''octaves'' (PNum (NInt 5)) params)
      else if any_in [''smooth'', ''gentle'', ''soft'', ''simple''] text_lower then
        AList.update ''persistence'' (PNum (NFloat (Finite 0.3)))
          (AList.update ''octaves'' (PNum (NInt 2)) params)
      else params)"

definition water_layer :: "string \<Rightarrow> pydict \<Rightarrow> pydict" where
  "water_layer text_lower params =
     (if any_in [''river'', ''stream'', ''water'', ''creek''] text_lower then
        AList.update ''erosion'' (PNum (NFloat (Finite 0.3))) params
      else params)"

definition fallback_analysis :: "8 word list \<Rightarrow> string \<Rightarrow> error + pydict" where
  "fallback_analysis urandom text =
     (let text_lower = lower text;
          params = default_params urandom
      in case size_layer text_lower (terrain_layer text_lower params) of
           Inl e \<Rightarrow> Inl e
         | Inr params' \<Rightarrow> Inr (water_layer text_lower (detail_layer text_lower params')))"

section \<open>Transcription adapter\<close>

text \<open>
  \<^verbatim>\<open>Path(p).stem\<close> of the standard library, for POSIX paths: the last component that is
  neither empty nor a single dot, without its last suffix; a leading dot or a trailing
  dot starts no suffix.
\<close>

fun split_on :: "char \<Rightarrow> string \<Rightarrow> string list" where
  "split_on sep [] = [[]]"
| "split_on sep (c # cs) =
     (if c = sep then [] # split_on sep cs
      else (case split_on sep cs of [] \<Rightarrow> [[c]] | w # ws \<Rightarrow> (c # w) # ws))"

definition path_name :: "string \<Rightarrow> string" where
  "path_name p =
     (case filter (\<lambda>part. part \<noteq> [] \<and> part \<noteq> ''.'') (split_on CHR ''/'' p) of
        [] \<Rightarrow> []
      | parts \<Rightarrow> last parts)"

definition path_stem :: "string \<Rightarrow> string" where
  "path_stem p =
     (let name = path_name p;
          after = takeWhile (\<lambda>c. c \<noteq> CHR ''.'') (rev name);
          i = length name - length after - 1
      in if CHR ''.'' \<in> set name \<and> 0 < i \<and> i < length name - 1 then take i name else name)"

definition fallback_phrases :: "(string \<times> string) list" where
  "fallback_phrases =
     [(''mountain'', ''I want some mountains''),
      (''hill'', ''Make rolling hills''),
      (''valley'', ''Create valleys with a river''),
      (''flat'', ''I want a flat plain''),
      (''rough'', ''Make rough rocky terrain''),
      (''smooth'', ''Create smooth gentle hills'')]"

text \<open>The loop over \<^verbatim>\<open>fallback_phrases.items()\<close>, falling through to the default phrase.\<close>

fun first_phrase :: "(string \<times> string) list \<Rightarrow> string \<Rightarrow> string" where
  "first_phrase [] filename = ''Create hilly terrain''"
| "first_phrase ((keyword, phrase) # rest) filename =
     (if contains keyword filename then phrase else first_phrase rest filename)"

definition fallback_transcription :: "string \<Rightarrow> string" where
  "fallback_transcription audio_file_path =
     first_phrase fallback_phrases (lower (path_stem audio_file_path))"

text \<open>\<^verbatim>\<open>str.strip()\<close>, on the ASCII whitespace characters.\<close>

definition is_space :: "char \<Rightarrow> bool" where
  "is_space c = (c \<in> set [CHR '' '', CHR 0x09, CHR 0x0A, CHR 0x0B, CHR 0x0C, CHR 0x0D,
                           CHR 0x1C, CHR 0x1D, CHR 0x1E, CHR 0x1F])"

definition strip :: "string \<Rightarrow> string" where
  "strip s = rev (dropWhile is_space (rev (dropWhile is_space s)))"

text \<open>
  The collaborators a processor holds after \<^verbatim>\<open>__init__\<close>. The speech model maps a path to
  the text of its result or raises; the remote client maps the request text (inside the
  fixed prompt) to the content of the first choice or raises; either may be absent.
  \<^verbatim>\<open>json.loads\<close> and \<^verbatim>\<open>os.path.exists\<close> are the library functions.
\<close>

record env =
  whisper_model :: "(string \<Rightarrow> error + string) option"
  openai_client :: "(string \<Rightarrow> error + string) option"
  json_loads :: "string \<Rightarrow> error + pyval"
  path_exists :: "string \<Rightarrow> bool"

definition transcribe_audio :: "env \<Rightarrow> string \<Rightarrow> string" where
  "transcribe_audio E audio_file_path =
     (case whisper_model E of
        None \<Rightarrow> fallback_transcription audio_file_path
      | Some model \<Rightarrow>
          (case model audio_file_path of
             Inl e \<Rightarrow> fallback_transcription audio_file_path
           | Inr result_text \<Rightarrow> strip result_text))"

section \<open>Semantic analyzer\<close>

text \<open>
  The \<^verbatim>\<open>try\<close> block raises when the call does, when the parser does and when the validator
  does; both \<^verbatim>\<open>except\<close> clauses hand the text to the heuristic analyzer.
\<close>

definition remote_analysis :: "env \<Rightarrow> (string \<Rightarrow> error + string) \<Rightarrow> string \<Rightarrow> error + pydict" where
  "remote_analysis E client text =
     (case client text of
        Inl e \<Rightarrow> Inl e
      | Inr content \<Rightarrow>
          (case json_loads E (strip content) of
             Inl e \<Rightarrow> Inl e
           | Inr parameters \<Rightarrow> validate_parameters parameters))"

definition analyze_terrain_request :: "env \<Rightarrow> 8 word list \<Rightarrow> string \<Rightarrow> error + pydict" where
  "analyze_terrain_request E urandom text =
     (case openai_client E of
        None \<Rightarrow> fallback_analysis urandom text
      | Some client \<Rightarrow>
          (case remote_analysis E client text of
             Inr validated \<Rightarrow> Inr validated
           | Inl JSONDecodeError \<Rightarrow> fallback_analysis urandom text
           | Inl e \<Rightarrow> fallback_analysis urandom text))"

section \<open>Keyword extractor and orchestrator\<close>

definition terrain_keywords :: "string list" where
  "terrain_keywords =
     [''mountain'', ''mountains'', ''hill'', ''hills'', ''valley'', ''valleys'',
      ''flat'', ''plain'', ''plains'', ''plateau'', ''mesa'']"

definition feature_keywords :: "string list" where
  "feature_keywords =
     [''river'', ''stream'', ''water'', ''rough'', ''smooth'', ''jagged'',
      ''gentle'', ''steep'', ''rocky'', ''grassy'', ''forest'']"

definition size_keywords :: "string list" where
  "size_keywords = [''large'', ''big'', ''huge'', ''small'', ''tiny'', ''massive'', ''mini'']"

definition extract_keywords :: "string \<Rightarrow> string list" where
  "extract_keywords text =
     filter (\<lambda>keyword. contains keyword (lower text))
       (terrain_keywords @ feature_keywords @ size_keywords)"

text \<open>
  \<^verbatim>\<open>process_voice_command\<close> returns its dictionary together with the stages it has called,
  in call order. An exception that escapes it (none of the stages lets one out, see
  below) would be an \<open>Inl\<close>.
\<close>

datatype stage = Transcription | Analysis | KeywordExtraction

definition process_voice_command ::
  "env \<Rightarrow> 8 word list \<Rightarrow> string \<Rightarrow> stage list \<times> (error + pydict)" where
  "process_voice_command E urandom audio_file_path =
     (if \<not> path_exists E audio_file_path then
        ([], Inr [(''error'', PStr (''Audio file not found: '' @ audio_file_path))])
      else
        (let text = transcribe_audio E audio_file_path in
         if text = [] then
           ([Transcription], Inr [(''error'', PStr ''Failed to transcribe audio'')])
         else
           (case analyze_terrain_request E urandom text of
              Inl e \<Rightarrow> ([Transcription, Analysis], Inl e)
            | Inr parameters \<Rightarrow>
                ([Transcription, Analysis, KeywordExtraction],
                 Inr [(''text'', PStr text),
                      (''parameters'', PDict parameters),
                      (''keywords'', PList (map PStr (extract_keywords text))),
                      (''success'', PNum (NBool True))]))))"

section \<open>Notions used by the properties\<close>

text \<open>
  What one iteration of the validator's loop writes for a field when \<^verbatim>\<open>params\<close> is a
  dictionary: the default of an absent key, the clamped value of a number, the minimum
  for anything else.
\<close>

definition field_value :: "pydict \<Rightarrow> string \<Rightarrow> number \<Rightarrow> number \<Rightarrow> number \<Rightarrow> number" where
  "field_value m key lo hi d =
     (case map_of m key of
        None \<Rightarrow> d
      | Some (PNum v) \<Rightarrow> py_max lo (py_min hi v)
      | Some _ \<Rightarrow> lo)"

text \<open>
  A number lies in the closed range \<open>[lo, hi]\<close> when it is finite and between the bounds.
  It is \<open>canonical\<close> for the range when it is one of the two bounds as the table writes
  them, or strictly between them: the clamp returns only such numbers.
\<close>

definition in_range :: "number \<Rightarrow> number \<Rightarrow> number \<Rightarrow> bool" where
  "in_range lo hi x =
     (case (nval lo, nval x, nval hi) of
        (Finite a, Finite r, Finite b) \<Rightarrow> a \<le> r \<and> r \<le> b
      | _ \<Rightarrow> False)"

definition canonical :: "number \<Rightarrow> number \<Rightarrow> number \<Rightarrow> bool" where
  "canonical lo hi x = (x = lo \<or> x = hi \<or> (num_lt lo x \<and> num_lt x hi))"

text \<open>Every field of the schema is present in \<open>r\<close> with a number in its range.\<close>

definition in_ranges :: "pydict \<Rightarrow> bool" where
  "in_ranges r =
     list_all (\<lambda>(key, lo, hi). case map_of r key of Some (PNum x) \<Rightarrow> in_range lo hi x | _ \<Rightarrow> False)
       constraints"

text \<open>The entry of \<open>r\<close> at \<open>key\<close> is a Python \<^verbatim>\<open>int\<close>.\<close>

definition is_integer :: "pydict \<Rightarrow> string \<Rightarrow> bool" where
  "is_integer r key = (case map_of r key of Some (PNum (NInt i)) \<Rightarrow> True | _ \<Rightarrow> False)"

text \<open>
  A value other than a dictionary in which a key of the schema occurs: as an element of
  a list, as a substring of a string. On such a value \<^verbatim>\<open>key in params\<close> is true and
  \<^verbatim>\<open>params[key]\<close> raises.
\<close>

fun schema_key_in :: "pyval \<Rightarrow> bool" where
  "schema_key_in (PList xs) = list_ex (\<lambda>(key, lo, hi). PStr key \<in> set xs) constraints"
| "schema_key_in (PStr s) = list_ex (\<lambda>(key, lo, hi). contains key s) constraints"
| "schema_key_in v = False"

text \<open>The parsed values on which \<^verbatim>\<open>validate_parameters\<close> raises.\<close>

fun validator_raises :: "pyval \<Rightarrow> bool" where
  "validator_raises PNone = True"
| "validator_raises (PNum n) = True"
| "validator_raises (PDict d) = False"
| "validator_raises v = schema_key_in v"

text \<open>The dictionary that holds the default of every field.\<close>

definition all_defaults :: pydict where
  "all_defaults = map (\<lambda>(key, d). (key, PNum d)) defaults"

text \<open>
  Sample collaborators for the concrete instances below: a parser that knows a few JSON
  texts, and a processor without speech model whose remote client gives the same outcome
  to every request, on a file system where every path exists.
\<close>

definition sample_loads :: "string \<Rightarrow> error + pyval" where
  "sample_loads s =
     (case map_of [(''[]'', PList []), (''null'', PNone), (''5'', PNum (NInt 5)),
                   (''{}'', PDict [])] s of
        None \<Rightarrow> Inl JSONDecodeError
      | Some v \<Rightarrow> Inr v)"

definition replying :: "error + string \<Rightarrow> env" where
  "replying outcome =
     \<lparr>whisper_model = None, openai_client = Some (\<lambda>request. outcome),
      json_loads = sample_loads, path_exists = (\<lambda>p. True)\<rparr>"

definition offline :: "(string \<Rightarrow> bool) \<Rightarrow> env" where
  "offline exists =
     \<lparr>whisper_model = None, openai_client = None,
      json_loads = sample_loads, path_exists = exists\<rparr>"

section \<open>The validator on dictionaries\<close>

lemma validate_field_dict:
  "map_of defaults key = Some d \<Longrightarrow>
   validate_field (PDict m) (key, lo, hi) validated =
     Inr (AList.update key (PNum (field_value m key lo hi d)) validated)"
  by (auto simp: validate_field_def field_value_def split: option.splits pyval.splits bool.splits)

lemma clamp_canonical: "num_lt lo hi \<Longrightarrow> canonical lo hi (py_max lo (py_min hi v))"
  by (auto simp: canonical_def py_max_def py_min_def)

lemma flt_irrefl: "\<not> flt a a"
  by (cases a) auto

lemma flt_asym: "flt a b \<Longrightarrow> \<not> flt b a"
  by (cases a; cases b) auto

lemma clamp_fixed: "num_lt lo hi \<Longrightarrow> canonical lo hi x \<Longrightarrow> py_max lo (py_min hi x) = x"
  by (auto simp: canonical_def py_max_def py_min_def num_lt_def flt_irrefl dest: flt_asym)

lemma canonical_in_range:
  "nval lo = Finite a \<Longrightarrow> nval hi = Finite b \<Longrightarrow> a < b \<Longrightarrow> canonical lo hi x \<Longrightarrow> in_range lo hi x"
  by (cases "nval x") (auto simp: canonical_def in_range_def num_lt_def)

lemma field_value_canonical:
  "num_lt lo hi \<Longrightarrow> canonical lo hi d \<Longrightarrow> canonical lo hi (field_value m key lo hi d)"
proof -
  assume lh: "num_lt lo hi" and d: "canonical lo hi d"
  have lo: "canonical lo hi lo" by (simp add: canonical_def)
  show ?thesis
    by (simp add: field_value_def clamp_canonical [OF lh] lo d split: option.splits pyval.splits)
qed

lemma py_int_canonical:
  assumes "a < b" "canonical (NInt a) (NInt b) x"
  shows "\<exists>i. py_int x = Inr (NInt i) \<and> canonical (NInt a) (NInt b) (NInt i)"
proof -
  consider "x = NInt a" | "x = NInt b" | "num_lt (NInt a) x" "num_lt x (NInt b)"
    using assms(2) by (auto simp: canonical_def)
  then show ?thesis
  proof cases
    case 3
    then obtain r where r: "nval x = Finite r" "of_int a < r" "r < of_int b"
      by (cases "nval x") (auto simp: num_lt_def)
    show ?thesis
    proof (cases x)
      case (NBool v)
      with r show ?thesis by (auto simp: canonical_def num_lt_def)
    next
      case (NInt i)
      with r show ?thesis by (auto simp: canonical_def num_lt_def)
    next
      case (NFloat f)
      with r have f: "x = NFloat (Finite r)" by simp
      have "a \<le> \<lfloor>r\<rfloor>" "\<lfloor>r\<rfloor> \<le> b" "a \<le> \<lceil>r\<rceil>" "\<lceil>r\<rceil> \<le> b"
        using r by linarith+
      then show ?thesis
        unfolding f by (auto simp: canonical_def num_lt_def)
    qed
  qed (auto simp: canonical_def)
qed

lemma loop_dict:
  "validate_loop (PDict m) constraints [] = Inr
     [(''seed'', PNum (field_value m ''seed'' (NInt 0) (NInt 10000) (NInt 42))),
      (''frequency'', PNum (field_value m ''frequency'' (NFloat (Finite 0.01)) (NFloat (Finite 1.0)) (NFloat (Finite 0.1)))),
      (''amplitude'', PNum (field_value m ''amplitude'' (NFloat (Finite 0.5)) (NFloat (Finite 20.0)) (NFloat (Finite 5.0)))),
      (''octaves'', PNum (field_value m ''octaves'' (NInt 1) (NInt 6) (NInt 3))),
      (''lacunarity'', PNum (field_value m ''lacunarity'' (NFloat (Finite 1.5)) (NFloat (Finite 3.0)) (NFloat (Finite 2.0)))),
      (''persistence'', PNum (field_value m ''persistence'' (NFloat (Finite 0.1)) (NFloat (Finite 0.8)) (NFloat (Finite 0.5)))),
      (''terrain_type'', PNum (field_value m ''terrain_type'' (NInt 0) (NInt 5) (NInt 1))),
      (''erosion'', PNum (field_value m ''erosion'' (NFloat (Finite 0.0)) (NFloat (Finite 1.0)) (NFloat (Finite 0.0)))),
      (''plateau'', PNum (field_value m ''plateau'' (NFloat (Finite 0.0)) (NFloat (Finite 15.0)) (NFloat (Finite 0.0))))]"
  by (simp add: constraints_def defaults_def validate_field_dict)


lemma validate_dict:
  "\<exists>s oc t.
     py_int (field_value m ''seed'' (NInt 0) (NInt 10000) (NInt 42)) = Inr (NInt s) \<and>
     canonical (NInt 0) (NInt 10000) (NInt s) \<and>
     py_int (field_value m ''octaves'' (NInt 1) (NInt 6) (NInt 3)) = Inr (NInt oc) \<and>
     canonical (NInt 1) (NInt 6) (NInt oc) \<and>
     py_int (field_value m ''terrain_type'' (NInt 0) (NInt 5) (NInt 1)) = Inr (NInt t) \<and>
     canonical (NInt 0) (NInt 5) (NInt t) \<and>
     validate_parameters (PDict m) = Inr
       [(''seed'', PNum (NInt s)),
        (''frequency'', PNum (field_value m ''frequency'' (NFloat (Finite 0.01)) (NFloat (Finite 1.0)) (NFloat (Finite 0.1)))),
        (''amplitude'', PNum (field_value m ''amplitude'' (NFloat (Finite 0.5)) (NFloat (Finite 20.0)) (NFloat (Finite 5.0)))),
        (''octaves'', PNum (NInt oc)),
        (''lacunarity'', PNum (field_value m ''lacunarity'' (NFloat (Finite 1.5)) (NFloat (Finite 3.0)) (NFloat (Finite 2.0)))),
        (''persistence'', PNum (field_value m ''persistence'' (NFloat (Finite 0.1)) (NFloat (Finite 0.8)) (NFloat (Finite 0.5)))),
        (''terrain_type'', PNum (NInt t)),
        (''erosion'', PNum (field_value m ''erosion'' (NFloat (Finite 0.0)) (NFloat (Finite 1.0)) (NFloat (Finite 0.0)))),
        (''plateau'', PNum (field_value m ''plateau'' (NFloat (Finite 0.0)) (NFloat (Finite 15.0)) (NFloat (Finite 0.0))))]"
proof -
  have "canonical (NInt 0) (NInt 10000) (field_value m ''seed'' (NInt 0) (NInt 10000) (NInt 42))"
    by (rule field_value_canonical) (simp_all add: num_lt_def canonical_def)
  from py_int_canonical [OF _ this]
  obtain s where s: "py_int (field_value m ''seed'' (NInt 0) (NInt 10000) (NInt 42)) = Inr (NInt s)"
    "canonical (NInt 0) (NInt 10000) (NInt s)" by auto
  have "canonical (NInt 1) (NInt 6) (field_value m ''octaves'' (NInt 1) (NInt 6) (NInt 3))"
    by (rule field_value_canonical) (simp_all add: num_lt_def canonical_def)
  from py_int_canonical [OF _ this]
  obtain oc where oc: "py_int (field_value m ''octaves'' (NInt 1) (NInt 6) (NInt 3)) = Inr (NInt oc)"
    "canonical (NInt 1) (NInt 6) (NInt oc)" by auto
  have "canonical (NInt 0) (NInt 5) (field_value m ''terrain_type'' (NInt 0) (NInt 5) (NInt 1))"
    by (rule field_value_canonical) (simp_all add: num_lt_def canonical_def)
  from py_int_canonical [OF _ this]
  obtain t where t: "py_int (field_value m ''terrain_type'' (NInt 0) (NInt 5) (NInt 1)) = Inr (NInt t)"
    "canonical (NInt 0) (NInt 5) (NInt t)" by auto
  show ?thesis
    using s oc t by (simp add: validate_parameters_def loop_dict coerce_int_def)
qed


lemma field_value_in_range:
  assumes "nval lo = Finite a" "nval hi = Finite b" "a < b" "canonical lo hi d"
  shows "in_range lo hi (field_value m key lo hi d)"
proof -
  have "num_lt lo hi" using assms by (simp add: num_lt_def)
  from field_value_canonical [OF this assms(4)] show ?thesis
    by (rule canonical_in_range [OF assms(1-3)])
qed

lemma field_value_fixed:
  "map_of r key = Some (PNum x) \<Longrightarrow> num_lt lo hi \<Longrightarrow> canonical lo hi x \<Longrightarrow>
   field_value r key lo hi d = x"
  by (simp add: field_value_def clamp_fixed)

text \<open>
  C2 (total validation). For every dictionary \<open>m\<close>, whatever its keys and values,
  \<^verbatim>\<open>validate_parameters\<close> raises nothing and returns a dictionary with exactly the nine
  fields of the schema, each a finite number inside its closed range, where \<^verbatim>\<open>seed\<close>,
  \<^verbatim>\<open>octaves\<close> and \<^verbatim>\<open>terrain_type\<close> are ints.
\<close>

theorem validate_total:
  "\<exists>r. validate_parameters (PDict m) = Inr r \<and>
       map fst r = [''seed'', ''frequency'', ''amplitude'', ''octaves'', ''lacunarity'',
                    ''persistence'', ''terrain_type'', ''erosion'', ''plateau''] \<and>
       in_ranges r \<and>
       is_integer r ''seed'' \<and> is_integer r ''octaves'' \<and> is_integer r ''terrain_type''"
proof -
  from validate_dict [of m] obtain s oc t r where
    c: "canonical (NInt 0) (NInt 10000) (NInt s)" "canonical (NInt 1) (NInt 6) (NInt oc)"
       "canonical (NInt 0) (NInt 5) (NInt t)"
    and r: "validate_parameters (PDict m) = Inr r"
      "r = [(''seed'', PNum (NInt s)),
        (''frequency'', PNum (field_value m ''frequency'' (NFloat (Finite 0.01)) (NFloat (Finite 1.0)) (NFloat (Finite 0.1)))),
        (''amplitude'', PNum (field_value m ''amplitude'' (NFloat (Finite 0.5)) (NFloat (Finite 20.0)) (NFloat (Finite 5.0)))),
        (''octaves'', PNum (NInt oc)),
        (''lacunarity'', PNum (field_value m ''lacunarity'' (NFloat (Finite 1.5)) (NFloat (Finite 3.0)) (NFloat (Finite 2.0)))),
        (''persistence'', PNum (field_value m ''persistence'' (NFloat (Finite 0.1)) (NFloat (Finite 0.8)) (NFloat (Finite 0.5)))),
        (''terrain_type'', PNum (NInt t)),
        (''erosion'', PNum (field_value m ''erosion'' (NFloat (Finite 0.0)) (NFloat (Finite 1.0)) (NFloat (Finite 0.0)))),
        (''plateau'', PNum (field_value m ''plateau'' (NFloat (Finite 0.0)) (NFloat (Finite 15.0)) (NFloat (Finite 0.0))))]"
    by blast
  have i: "in_range (NInt 0) (NInt 10000) (NInt s)" "in_range (NInt 1) (NInt 6) (NInt oc)"
    "in_range (NInt 0) (NInt 5) (NInt t)"
    using c by (auto intro: canonical_in_range)
  have f: "in_range (NFloat (Finite a)) (NFloat (Finite b)) (field_value m key (NFloat (Finite a)) (NFloat (Finite b)) d)"
    if "a < b" "canonical (NFloat (Finite a)) (NFloat (Finite b)) d" for a b d key
    using that by (auto intro: field_value_in_range)
  have "in_ranges r"
    unfolding in_ranges_def constraints_def r(2)
    by (simp add: i) (intro conjI f; simp add: canonical_def num_lt_def)
  then show ?thesis using r by (simp add: is_integer_def)
qed

theorem validate_total_witness:
  "validate_parameters
     (PDict [(''seed'', PNum (NFloat (Finite 5.7))), (''amplitude'', PNum (NFloat NaN)),
             (''octaves'', PList []), (''plateau'', PNum (NInt (- 3))), (''colour'', PStr ''red'')])
   = Inr [(''seed'', PNum (NInt 5)),
          (''frequency'', PNum (NFloat (Finite 0.1))),
          (''amplitude'', PNum (NFloat (Finite 20.0))),
          (''octaves'', PNum (NInt 1)),
          (''lacunarity'', PNum (NFloat (Finite 2.0))),
          (''persistence'', PNum (NFloat (Finite 0.5))),
          (''terrain_type'', PNum (NInt 1)),
          (''erosion'', PNum (NFloat (Finite 0.0))),
          (''plateau'', PNum (NFloat (Finite 0.0)))] \<and>
   in_ranges
         [(''seed'', PNum (NInt 5)),
          (''frequency'', PNum (NFloat (Finite 0.1))),
          (''amplitude'', PNum (NFloat (Finite 20.0))),
          (''octaves'', PNum (NInt 1)),
          (''lacunarity'', PNum (NFloat (Finite 2.0))),
          (''persistence'', PNum (NFloat (Finite 0.5))),
          (''terrain_type'', PNum (NInt 1)),
          (''erosion'', PNum (NFloat (Finite 0.0))),
          (''plateau'', PNum (NFloat (Finite 0.0)))]"
  using validate_total
    [of "[(''seed'', PNum (NFloat (Finite 5.7))), (''amplitude'', PNum (NFloat NaN)),
          (''octaves'', PList []), (''plateau'', PNum (NInt (- 3))), (''colour'', PStr ''red'')]"]
  by (auto simp: validate_parameters_def constraints_def defaults_def validate_field_def
      coerce_int_def py_max_def py_min_def num_lt_def)


text \<open>
  C10 (unknown keys are dropped). For every dictionary \<open>m\<close> the keys of the returned
  dictionary are exactly the nine keys of the schema, in the order of the table; a key
  outside the schema, whether \<open>m\<close> has it or not, is not a key of the result.
\<close>

theorem validate_keys:
  "\<exists>r. validate_parameters (PDict m) = Inr r \<and>
       map fst r = [''seed'', ''frequency'', ''amplitude'', ''octaves'', ''lacunarity'',
                    ''persistence'', ''terrain_type'', ''erosion'', ''plateau''] \<and>
       (\<forall>k. k \<notin> set [''seed'', ''frequency'', ''amplitude'', ''octaves'', ''lacunarity'',
                    ''persistence'', ''terrain_type'', ''erosion'', ''plateau''] \<longrightarrow> map_of r k = None)"
proof -
  from validate_dict [of m] obtain r where
    r: "validate_parameters (PDict m) = Inr r"
    and k: "map fst r = [''seed'', ''frequency'', ''amplitude'', ''octaves'', ''lacunarity'',
                    ''persistence'', ''terrain_type'', ''erosion'', ''plateau'']"
    by auto
  have n: "\<forall>k. k \<notin> set (map fst r) \<longrightarrow> map_of r k = None"
    by (simp add: map_of_eq_None_iff)
  show ?thesis
  proof (intro exI conjI)
    show "validate_parameters (PDict m) = Inr r" by (rule r)
    show "map fst r = [''seed'', ''frequency'', ''amplitude'', ''octaves'', ''lacunarity'',
                    ''persistence'', ''terrain_type'', ''erosion'', ''plateau'']" by (rule k)
    show "\<forall>k. k \<notin> set [''seed'', ''frequency'', ''amplitude'', ''octaves'', ''lacunarity'',
                    ''persistence'', ''terrain_type'', ''erosion'', ''plateau''] \<longrightarrow> map_of r k = None"
      using n unfolding k .
  qed
qed

theorem validate_keys_witness:
  "validate_parameters (PDict [(''colour'', PStr ''red''), (''seed'', PNum (NInt 7))]) = Inr
     [(''seed'', PNum (NInt 7)),
      (''frequency'', PNum (NFloat (Finite 0.1))),
      (''amplitude'', PNum (NFloat (Finite 5.0))),
      (''octaves'', PNum (NInt 3)),
      (''lacunarity'', PNum (NFloat (Finite 2.0))),
      (''persistence'', PNum (NFloat (Finite 0.5))),
      (''terrain_type'', PNum (NInt 1)),
      (''erosion'', PNum (NFloat (Finite 0.0))),
      (''plateau'', PNum (NFloat (Finite 0.0)))]"
  using validate_keys [of "[(''colour'', PStr ''red''), (''seed'', PNum (NInt 7))]"]
  by (auto simp: validate_parameters_def constraints_def defaults_def validate_field_def
      coerce_int_def py_max_def py_min_def num_lt_def)

text \<open>
  C5 (idempotence). For every dictionary \<open>m\<close>, validating the dictionary that
  \<^verbatim>\<open>validate_parameters\<close> returned for \<open>m\<close> returns that same dictionary, entry by entry
  and type by type.
\<close>

theorem validate_idempotent:
  "\<exists>r. validate_parameters (PDict m) = Inr r \<and> validate_parameters (PDict r) = Inr r"
proof -
  from validate_dict [of m] obtain s oc t r where
    c: "canonical (NInt 0) (NInt 10000) (NInt s)" "canonical (NInt 1) (NInt 6) (NInt oc)"
       "canonical (NInt 0) (NInt 5) (NInt t)"
    and r: "validate_parameters (PDict m) = Inr r"
      "r = [(''seed'', PNum (NInt s)),
        (''frequency'', PNum (field_value m ''frequency'' (NFloat (Finite 0.01)) (NFloat (Finite 1.0)) (NFloat (Finite 0.1)))),
        (''amplitude'', PNum (field_value m ''amplitude'' (NFloat (Finite 0.5)) (NFloat (Finite 20.0)) (NFloat (Finite 5.0)))),
        (''octaves'', PNum (NInt oc)),
        (''lacunarity'', PNum (field_value m ''lacunarity'' (NFloat (Finite 1.5)) (NFloat (Finite 3.0)) (NFloat (Finite 2.0)))),
        (''persistence'', PNum (field_value m ''persistence'' (NFloat (Finite 0.1)) (NFloat (Finite 0.8)) (NFloat (Finite 0.5)))),
        (''terrain_type'', PNum (NInt t)),
        (''erosion'', PNum (field_value m ''erosion'' (NFloat (Finite 0.0)) (NFloat (Finite 1.0)) (NFloat (Finite 0.0)))),
        (''plateau'', PNum (field_value m ''plateau'' (NFloat (Finite 0.0)) (NFloat (Finite 15.0)) (NFloat (Finite 0.0))))]"
    by blast
  have fx: "field_value r key lo hi d = x"
    if "map_of r key = Some (PNum x)" "num_lt lo hi" "canonical lo hi x" for key lo hi d x
    using that by (rule field_value_fixed)
  have fc: "canonical lo hi (field_value m key lo hi d)"
    if "num_lt lo hi" "canonical lo hi d" for key lo hi d
    using that by (rule field_value_canonical)
  have 1: "field_value r ''seed'' (NInt 0) (NInt 10000) (NInt 42) = NInt s"
    by (rule fx) (simp_all add: r(2) c num_lt_def)
  have 2: "field_value r ''octaves'' (NInt 1) (NInt 6) (NInt 3) = NInt oc"
    by (rule fx) (simp_all add: r(2) c num_lt_def)
  have 3: "field_value r ''terrain_type'' (NInt 0) (NInt 5) (NInt 1) = NInt t"
    by (rule fx) (simp_all add: r(2) c num_lt_def)
  have 4: "field_value r ''frequency'' (NFloat (Finite 0.01)) (NFloat (Finite 1.0)) (NFloat (Finite 0.1))
      = field_value m ''frequency'' (NFloat (Finite 0.01)) (NFloat (Finite 1.0)) (NFloat (Finite 0.1))"
    by (rule fx, simp add: r(2), simp add: num_lt_def, rule fc) (simp_all add: num_lt_def canonical_def)
  have 5: "field_value r ''amplitude'' (NFloat (Finite 0.5)) (NFloat (Finite 20.0)) (NFloat (Finite 5.0))
      = field_value m ''amplitude'' (NFloat (Finite 0.5)) (NFloat (Finite 20.0)) (NFloat (Finite 5.0))"
    by (rule fx, simp add: r(2), simp add: num_lt_def, rule fc) (simp_all add: num_lt_def canonical_def)
  have 6: "field_value r ''lacunarity'' (NFloat (Finite 1.5)) (NFloat (Finite 3.0)) (NFloat (Finite 2.0))
      = field_value m ''lacunarity'' (NFloat (Finite 1.5)) (NFloat (Finite 3.0)) (NFloat (Finite 2.0))"
    by (rule fx, simp add: r(2), simp add: num_lt_def, rule fc) (simp_all add: num_lt_def canonical_def)
  have 7: "field_value r ''persistence'' (NFloat (Finite 0.1)) (NFloat (Finite 0.8)) (NFloat (Finite 0.5))
      = field_value m ''persistence'' (NFloat (Finite 0.1)) (NFloat (Finite 0.8)) (NFloat (Finite 0.5))"
    by (rule fx, simp add: r(2), simp add: num_lt_def, rule fc) (simp_all add: num_lt_def canonical_def)
  have 8: "field_value r ''erosion'' (NFloat (Finite 0.0)) (NFloat (Finite 1.0)) (NFloat (Finite 0.0))
      = field_value m ''erosion'' (NFloat (Finite 0.0)) (NFloat (Finite 1.0)) (NFloat (Finite 0.0))"
    by (rule fx, simp add: r(2), simp add: num_lt_def, rule fc) (simp_all add: num_lt_def canonical_def)
  have 9: "field_value r ''plateau'' (NFloat (Finite 0.0)) (NFloat (Finite 15.0)) (NFloat (Finite 0.0))
      = field_value m ''plateau'' (NFloat (Finite 0.0)) (NFloat (Finite 15.0)) (NFloat (Finite 0.0))"
    by (rule fx, simp add: r(2), simp add: num_lt_def, rule fc) (simp_all add: num_lt_def canonical_def)
  from validate_dict [of r] have "validate_parameters (PDict r) = Inr r"
    unfolding 1 2 3 4 5 6 7 8 9 by (auto simp: r(2))
  with r(1) show ?thesis by blast
qed

theorem validate_idempotent_witness:
  "validate_parameters (PDict [(''seed'', PNum (NFloat (Finite 5.7))), (''amplitude'', PNum (NFloat NaN)),
          (''octaves'', PList []), (''plateau'', PNum (NInt (- 3))), (''colour'', PStr ''red'')]) = Inr [(''seed'', PNum (NInt 5)),
          (''frequency'', PNum (NFloat (Finite 0.1))),
          (''amplitude'', PNum (NFloat (Finite 20.0))),
          (''octaves'', PNum (NInt 1)),
          (''lacunarity'', PNum (NFloat (Finite 2.0))),
          (''persistence'', PNum (NFloat (Finite 0.5))),
          (''terrain_type'', PNum (NInt 1)),
          (''erosion'', PNum (NFloat (Finite 0.0))),
          (''plateau'', PNum (NFloat (Finite 0.0)))] \<and>
   validate_parameters (PDict [(''seed'', PNum (NInt 5)),
          (''frequency'', PNum (NFloat (Finite 0.1))),
          (''amplitude'', PNum (NFloat (Finite 20.0))),
          (''octaves'', PNum (NInt 1)),
          (''lacunarity'', PNum (NFloat (Finite 2.0))),
          (''persistence'', PNum (NFloat (Finite 0.5))),
          (''terrain_type'', PNum (NInt 1)),
          (''erosion'', PNum (NFloat (Finite 0.0))),
          (''plateau'', PNum (NFloat (Finite 0.0)))]) = Inr [(''seed'', PNum (NInt 5)),
          (''frequency'', PNum (NFloat (Finite 0.1))),
          (''amplitude'', PNum (NFloat (Finite 20.0))),
          (''octaves'', PNum (NInt 1)),
          (''lacunarity'', PNum (NFloat (Finite 2.0))),
          (''persistence'', PNum (NFloat (Finite 0.5))),
          (''terrain_type'', PNum (NInt 1)),
          (''erosion'', PNum (NFloat (Finite 0.0))),
          (''plateau'', PNum (NFloat (Finite 0.0)))]"
  using validate_idempotent [of "[(''seed'', PNum (NFloat (Finite 5.7))), (''amplitude'', PNum (NFloat NaN)),
          (''octaves'', PList []), (''plateau'', PNum (NInt (- 3))), (''colour'', PStr ''red'')]"]
  by (auto simp: validate_parameters_def constraints_def defaults_def validate_field_def
      coerce_int_def py_max_def py_min_def num_lt_def)





section \<open>The validator on other values\<close>

lemma validate_not_container:
  "validate_parameters PNone = Inl TypeError" "validate_parameters (PNum n) = Inl TypeError"
  by (simp_all add: validate_parameters_def constraints_def validate_field_def)

lemma validate_field_other:
  assumes "py_in key v = Inr b" "py_getitem v key = Inl TypeError" "map_of defaults key = Some d"
  shows "validate_field v (key, lo, hi) acc =
     (if b then Inl TypeError else Inr (AList.update key (PNum d) acc))"
  using assms by (simp add: validate_field_def)

lemma validate_list:
  "validate_parameters (PList xs) =
     (if schema_key_in (PList xs) then Inl TypeError else Inr all_defaults)"
  by (simp add: validate_parameters_def constraints_def defaults_def all_defaults_def
      validate_field_other [where v = "PList xs"] coerce_int_def)

lemma validate_str:
  "validate_parameters (PStr s) =
     (if schema_key_in (PStr s) then Inl TypeError else Inr all_defaults)"
  by (simp add: validate_parameters_def constraints_def defaults_def all_defaults_def
      validate_field_other [where v = "PStr s"] coerce_int_def)

lemma validator_raises_iff: "validator_raises v \<longleftrightarrow> (\<exists>e. validate_parameters v = Inl e)"
proof (cases v)
  case (PDict d)
  then show ?thesis using validate_dict [of d] by auto
qed (simp_all add: validate_not_container validate_list validate_str)

section \<open>The heuristic analyzer\<close>

lemma random_seed_range: "0 \<le> random_seed urandom \<and> random_seed urandom < 10000"
  by (simp add: random_seed_def)

text \<open>
  C6 (scenarios). Whatever the random bytes, \<^verbatim>\<open>fallback_analysis\<close> on
  \<^verbatim>\<open>"I want rolling hills"\<close> returns terrain_type 1, amplitude 8.0, frequency 0.1, the
  default in every other field but the seed, and a seed inside its range; on
  \<^verbatim>\<open>"Make some mountains with rivers"\<close> it returns terrain_type 2, amplitude 15.0,
  frequency 0.05 and erosion 0.3.
\<close>

theorem fallback_scenarios:
  "fallback_analysis urandom ''I want rolling hills'' = Inr
     [(''seed'', PNum (NInt (random_seed urandom))),
      (''frequency'', PNum (NFloat (Finite 0.1))),
      (''amplitude'', PNum (NFloat (Finite 8.0))),
      (''octaves'', PNum (NInt 3)),
      (''lacunarity'', PNum (NFloat (Finite 2.0))),
      (''persistence'', PNum (NFloat (Finite 0.5))),
      (''terrain_type'', PNum (NInt 1)),
      (''erosion'', PNum (NFloat (Finite 0.0))),
      (''plateau'', PNum (NFloat (Finite 0.0)))] \<and>
   in_range (NInt 0) (NInt 10000) (NInt (random_seed urandom)) \<and>
   fallback_analysis urandom ''Make some mountains with rivers'' = Inr
     [(''seed'', PNum (NInt (random_seed urandom))),
      (''frequency'', PNum (NFloat (Finite 0.05))),
      (''amplitude'', PNum (NFloat (Finite 15.0))),
      (''octaves'', PNum (NInt 3)),
      (''lacunarity'', PNum (NFloat (Finite 2.0))),
      (''persistence'', PNum (NFloat (Finite 0.5))),
      (''terrain_type'', PNum (NInt 2)),
      (''erosion'', PNum (NFloat (Finite 0.3))),
      (''plateau'', PNum (NFloat (Finite 0.0)))]"
proof (intro conjI)
  show "in_range (NInt 0) (NInt 10000) (NInt (random_seed urandom))"
    using random_seed_range [of urandom] by (simp add: in_range_def)
qed (simp_all add: fallback_analysis_def lower_def lower_char_def default_params_def
    terrain_layer_def size_layer_def detail_layer_def water_layer_def any_in_def
    dict_update_def imul_def num_mul_def)

theorem fallback_scenarios_witness:
  "fallback_analysis [1, 2, 3, 4] ''I want rolling hills'' = Inr
     [(''seed'', PNum (NInt 9060)),
      (''frequency'', PNum (NFloat (Finite 0.1))),
      (''amplitude'', PNum (NFloat (Finite 8.0))),
      (''octaves'', PNum (NInt 3)),
      (''lacunarity'', PNum (NFloat (Finite 2.0))),
      (''persistence'', PNum (NFloat (Finite 0.5))),
      (''terrain_type'', PNum (NInt 1)),
      (''erosion'', PNum (NFloat (Finite 0.0))),
      (''plateau'', PNum (NFloat (Finite 0.0)))]"
  using fallback_scenarios [of "[1, 2, 3, 4]"]
  by (simp add: random_seed_def from_bytes_big_def)

text \<open>
  C1 (the heuristic analyzer stays in range) fails on the code. On the text
  \<^verbatim>\<open>"large mountains"\<close> the terrain layer sets the amplitude to 15.0 and the size layer
  multiplies it by 1.5: the record returned has amplitude 22.5, above the maximum 20.0 of
  the table of constraints, and nothing validates it afterwards.
\<close>

theorem fallback_amplitude_out_of_range:
  "fallback_analysis [0, 0, 0, 0] ''large mountains'' = Inr
     [(''seed'', PNum (NInt 0)),
      (''frequency'', PNum (NFloat (Finite 0.025))),
      (''amplitude'', PNum (NFloat (Finite 22.5))),
      (''octaves'', PNum (NInt 3)),
      (''lacunarity'', PNum (NFloat (Finite 2.0))),
      (''persistence'', PNum (NFloat (Finite 0.5))),
      (''terrain_type'', PNum (NInt 2)),
      (''erosion'', PNum (NFloat (Finite 0.0))),
      (''plateau'', PNum (NFloat (Finite 0.0)))] \<and>
   map_of constraints ''amplitude'' = Some (NFloat (Finite 0.5), NFloat (Finite 20.0)) \<and>
   \<not> in_range (NFloat (Finite 0.5)) (NFloat (Finite 20.0)) (NFloat (Finite 22.5))"
  by (simp add: fallback_analysis_def lower_def lower_char_def default_params_def
    terrain_layer_def size_layer_def detail_layer_def water_layer_def any_in_def
    dict_update_def imul_def num_mul_def random_seed_def from_bytes_big_def
    in_range_def constraints_def)

lemma dict_update_Cons:
  "k0 \<notin> fst ` set entries \<Longrightarrow>
   dict_update ((k0, s) # rest) entries = (k0, s) # dict_update rest entries"
  unfolding dict_update_def
  by (induction entries arbitrary: rest) auto

lemma terrain_layer_Cons:
  "terrain_layer t ((''seed'', s) # rest) = (''seed'', s) # terrain_layer t rest"
  by (simp add: terrain_layer_def dict_update_Cons)

lemma imul_Cons:
  "key \<noteq> k0 \<Longrightarrow> imul key c ((k0, s) # rest) = map_sum id ((#) (k0, s)) (imul key c rest)"
  by (simp add: imul_def split: option.splits pyval.splits)

lemma size_layer_Cons:
  "size_layer t ((''seed'', s) # rest) = map_sum id ((#) (''seed'', s)) (size_layer t rest)"
  by (cases "imul ''frequency'' (NFloat (Finite 0.5)) rest";
      cases "imul ''frequency'' (NFloat (Finite 2.0)) rest")
     (simp_all add: size_layer_def imul_Cons)

lemma detail_layer_Cons:
  "detail_layer t ((''seed'', s) # rest) = (''seed'', s) # detail_layer t rest"
  by (simp add: detail_layer_def)

lemma water_layer_Cons:
  "water_layer t ((''seed'', s) # rest) = (''seed'', s) # water_layer t rest"
  by (simp add: water_layer_def)

lemma dict_update_numeric:
  "\<exists>n. map_of p key = Some (PNum n) \<Longrightarrow> \<forall>v \<in> snd ` set entries. \<exists>n. v = PNum n \<Longrightarrow>
   \<exists>n. map_of (dict_update p entries) key = Some (PNum n)"
  unfolding dict_update_def
  by (induction entries arbitrary: p) (auto simp: update_conv')

lemma terrain_layer_numeric:
  "\<exists>n. map_of p key = Some (PNum n) \<Longrightarrow> \<exists>n. map_of (terrain_layer t p) key = Some (PNum n)"
  unfolding terrain_layer_def
  by (auto intro!: dict_update_numeric)

lemma imul_number:
  "map_of p key = Some (PNum n) \<Longrightarrow>
   imul key c p = Inr (AList.update key (PNum (num_mul n c)) p)"
  by (simp add: imul_def)

lemma size_layer_numeric:
  assumes "\<exists>n. map_of p ''frequency'' = Some (PNum n)" "\<exists>n. map_of p ''amplitude'' = Some (PNum n)"
  shows "\<exists>q. size_layer t p = Inr q"
proof -
  from assms obtain f a where
    f: "map_of p ''frequency'' = Some (PNum f)" and a: "map_of p ''amplitude'' = Some (PNum a)"
    by blast
  have 1: "imul ''frequency'' c p = Inr (AList.update ''frequency'' (PNum (num_mul f c)) p)" for c
    by (rule imul_number [OF f])
  have 2: "map_of (AList.update ''frequency'' v p) ''amplitude'' = Some (PNum a)" for v
    by (simp add: update_conv' a)
  have 3: "imul ''amplitude'' c (AList.update ''frequency'' v p) =
      Inr (AList.update ''amplitude'' (PNum (num_mul a c)) (AList.update ''frequency'' v p))" for c v
    by (rule imul_number [OF 2])
  show ?thesis
    by (simp add: size_layer_def 1 3)
qed

lemma size_layer_total:
  "\<exists>q. size_layer t (terrain_layer t (tl (default_params u))) = Inr q"
  by (intro size_layer_numeric terrain_layer_numeric) (simp_all add: default_params_def)

text \<open>
  C9 (determinism modulo seed). For every text there is a list of entries, depending on
  the text alone, such that for every outcome of the random source the record returned
  by \<^verbatim>\<open>fallback_analysis\<close> is the seed entry followed by that list: two runs on the same
  text differ at most in the seed.
\<close>

theorem fallback_deterministic_modulo_seed:
  "\<exists>rest. \<forall>urandom.
     fallback_analysis urandom text = Inr ((''seed'', PNum (NInt (random_seed urandom))) # rest)"
proof -
  obtain q where q: "size_layer (lower text) (terrain_layer (lower text) (tl (default_params []))) = Inr q"
    using size_layer_total by blast
  have tl: "tl (default_params u) = tl (default_params [])" for u
    by (simp add: default_params_def)
  have "fallback_analysis u text =
      Inr ((''seed'', PNum (NInt (random_seed u))) # water_layer (lower text) (detail_layer (lower text) q))" for u
  proof -
    have "default_params u = (''seed'', PNum (NInt (random_seed u))) # tl (default_params [])"
      by (simp add: default_params_def)
    then show ?thesis
      by (simp add: fallback_analysis_def Let_def terrain_layer_Cons size_layer_Cons q
          detail_layer_Cons water_layer_Cons)
  qed
  then show ?thesis by blast
qed

theorem fallback_deterministic_modulo_seed_witness:
  "\<exists>rest.
     fallback_analysis [0, 0, 0, 1] ''small flat'' = Inr ((''seed'', PNum (NInt 1)) # rest) \<and>
     fallback_analysis [0, 0, 1, 0] ''small flat'' = Inr ((''seed'', PNum (NInt 256)) # rest)"
proof -
  have "random_seed [0, 0, 0, 1] = 1" "random_seed [0, 0, 1, 0] = 256"
    by (simp_all add: random_seed_def from_bytes_big_def)
  with fallback_deterministic_modulo_seed [of "''small flat''"] show ?thesis
    by metis
qed

section \<open>The semantic analyzer\<close>

text \<open>
  With a remote client present, an exception inside the \<^verbatim>\<open>try\<close> block hands the text to
  the heuristic analyzer: when the remote call raises, when the parser raises, and when
  the validator raises on the parsed value.
\<close>

lemma remote_exception_fallback:
  assumes "openai_client E = Some client"
  shows
    "(\<forall>e. client text = Inl e \<longrightarrow>
        analyze_terrain_request E urandom text = fallback_analysis urandom text) \<and>
     (\<forall>content e. client text = Inr content \<and> json_loads E (strip content) = Inl e \<longrightarrow>
        analyze_terrain_request E urandom text = fallback_analysis urandom text) \<and>
     (\<forall>content v. client text = Inr content \<and> json_loads E (strip content) = Inr v \<and>
        validator_raises v \<longrightarrow>
        analyze_terrain_request E urandom text = fallback_analysis urandom text)"
proof -
  have fb: "analyze_terrain_request E urandom text = fallback_analysis urandom text"
    if "remote_analysis E client text = Inl e" for e
    using that assms by (cases e) (simp_all add: analyze_terrain_request_def)
  have raises: "validate_parameters v = Inl TypeError" if "validator_raises v" for v
    using that by (cases v) (simp_all add: validate_not_container validate_list validate_str)
  show ?thesis
  proof (intro conjI allI impI)
    fix e assume "client text = Inl e"
    then show "analyze_terrain_request E urandom text = fallback_analysis urandom text"
      by (intro fb [of e]) (simp add: remote_analysis_def)
  next
    fix content e assume "client text = Inr content \<and> json_loads E (strip content) = Inl e"
    then show "analyze_terrain_request E urandom text = fallback_analysis urandom text"
      by (intro fb [of e]) (simp add: remote_analysis_def)
  next
    fix content v
    assume "client text = Inr content \<and> json_loads E (strip content) = Inr v \<and> validator_raises v"
    then show "analyze_terrain_request E urandom text = fallback_analysis urandom text"
      by (intro fb [of TypeError]) (simp add: remote_analysis_def raises)
  qed
qed

text \<open>
  C3 (fallback transparency) fails on the code for a JSON value that is not an object.
  Nothing checks that the parsed value is a dictionary before it is passed to
  \<^verbatim>\<open>validate_parameters\<close>. When the remote model answers \<^verbatim>\<open>[]\<close> to the request
  \<^verbatim>\<open>"mountains"\<close>, every \<^verbatim>\<open>key in params\<close> is false, nothing raises, and the result is the
  table of defaults (seed 42, terrain_type 1) instead of the record of the heuristic
  analyzer (terrain_type 2, amplitude 15.0). The answer \<^verbatim>\<open>null\<close>, also not an object,
  does reach the heuristic analyzer, because \<^verbatim>\<open>key in None\<close> raises.
\<close>

theorem array_reply_not_fallback:
  "openai_client (replying (Inr ''[]'')) \<noteq> None \<and>
   json_loads (replying (Inr ''[]'')) (strip ''[]'') = Inr (PList []) \<and>
   analyze_terrain_request (replying (Inr ''[]'')) [0, 0, 0, 0] ''mountains'' = Inr all_defaults \<and>
   map_of all_defaults ''terrain_type'' = Some (PNum (NInt 1)) \<and>
   fallback_analysis [0, 0, 0, 0] ''mountains'' = Inr
     [(''seed'', PNum (NInt 0)),
      (''frequency'', PNum (NFloat (Finite 0.05))),
      (''amplitude'', PNum (NFloat (Finite 15.0))),
      (''octaves'', PNum (NInt 3)),
      (''lacunarity'', PNum (NFloat (Finite 2.0))),
      (''persistence'', PNum (NFloat (Finite 0.5))),
      (''terrain_type'', PNum (NInt 2)),
      (''erosion'', PNum (NFloat (Finite 0.0))),
      (''plateau'', PNum (NFloat (Finite 0.0)))] \<and>
   analyze_terrain_request (replying (Inr ''[]'')) [0, 0, 0, 0] ''mountains''
     \<noteq> fallback_analysis [0, 0, 0, 0] ''mountains'' \<and>
   json_loads (replying (Inr ''null'')) (strip ''null'') = Inr PNone \<and>
   analyze_terrain_request (replying (Inr ''null'')) [0, 0, 0, 0] ''mountains''
     = fallback_analysis [0, 0, 0, 0] ''mountains''"
proof -
  have s: "strip ''[]'' = ''[]''"
    by (simp add: strip_def is_space_def)
  have a: "analyze_terrain_request (replying (Inr ''[]'')) [0, 0, 0, 0] ''mountains'' = Inr all_defaults"
    by (simp add: analyze_terrain_request_def remote_analysis_def replying_def s sample_loads_def
        validate_list constraints_def)
  have f: "fallback_analysis [0, 0, 0, 0] ''mountains'' = Inr
     [(''seed'', PNum (NInt 0)),
      (''frequency'', PNum (NFloat (Finite 0.05))),
      (''amplitude'', PNum (NFloat (Finite 15.0))),
      (''octaves'', PNum (NInt 3)),
      (''lacunarity'', PNum (NFloat (Finite 2.0))),
      (''persistence'', PNum (NFloat (Finite 0.5))),
      (''terrain_type'', PNum (NInt 2)),
      (''erosion'', PNum (NFloat (Finite 0.0))),
      (''plateau'', PNum (NFloat (Finite 0.0)))]"
    by (simp add: fallback_analysis_def lower_def lower_char_def default_params_def
    terrain_layer_def size_layer_def detail_layer_def water_layer_def any_in_def
    dict_update_def imul_def num_mul_def random_seed_def from_bytes_big_def)
  have n: "strip ''null'' = ''null''"
    by (simp add: strip_def is_space_def)
  have b: "analyze_terrain_request (replying (Inr ''null'')) [0, 0, 0, 0] ''mountains''
      = fallback_analysis [0, 0, 0, 0] ''mountains''"
    by (simp add: analyze_terrain_request_def remote_analysis_def replying_def n sample_loads_def
        validate_not_container)
  show ?thesis
    unfolding a b f
    by (simp add: replying_def s n sample_loads_def all_defaults_def defaults_def)
qed

section \<open>The orchestrator and the transcription adapter\<close>

text \<open>
  C7 (short circuit). For a path that does not exist, \<^verbatim>\<open>process_voice_command\<close> returns
  the dictionary whose only key is \<^verbatim>\<open>error\<close>, with the message
  \<^verbatim>\<open>Audio file not found: \<close> followed by the path, and has called no stage: no
  transcription, no analysis, no keyword extraction.
\<close>

theorem missing_file_short_circuit:
  "\<not> path_exists E path \<Longrightarrow>
   process_voice_command E urandom path =
     ([], Inr [(''error'', PStr (''Audio file not found: '' @ path))])"
  by (simp add: process_voice_command_def)

theorem missing_file_short_circuit_witness:
  "\<not> path_exists (offline (\<lambda>p. False)) ''/nonexistent/path.wav'' \<and>
   process_voice_command (offline (\<lambda>p. False)) [0, 0, 0, 0] ''/nonexistent/path.wav'' =
     ([], Inr [(''error'', PStr ''Audio file not found: /nonexistent/path.wav'')])"
proof -
  have h: "\<not> path_exists (offline (\<lambda>p. False)) ''/nonexistent/path.wav''"
    by (simp add: offline_def)
  from missing_file_short_circuit [OF h, of "[0, 0, 0, 0]"] h show ?thesis
    by simp
qed

lemma first_phrase_find:
  "first_phrase ps filename =
     (case find (\<lambda>(keyword, phrase). contains keyword filename) ps of
        None \<Rightarrow> ''Create hilly terrain''
      | Some (keyword, phrase) \<Rightarrow> phrase)"
  by (induction ps filename rule: first_phrase.induct) simp_all

lemma fallback_transcription_nonempty: "fallback_transcription path \<noteq> []"
  by (simp add: fallback_transcription_def fallback_phrases_def)

text \<open>
  C8 (transcription without a speech engine). When the processor holds no speech model,
  \<^verbatim>\<open>transcribe_audio\<close> returns, for every path, a string that is not empty: the phrase of
  the first keyword of the table contained in the lower-cased stem of the file name, the
  default phrase when there is none. So the orchestrator never returns the record
  \<^verbatim>\<open>{"error": "Failed to transcribe audio"}\<close>.
\<close>

theorem transcription_without_engine:
  assumes "whisper_model E = None"
  shows "transcribe_audio E path \<noteq> [] \<and>
     transcribe_audio E path =
       (case find (\<lambda>(keyword, phrase). contains keyword (lower (path_stem path))) fallback_phrases of
          None \<Rightarrow> ''Create hilly terrain''
        | Some (keyword, phrase) \<Rightarrow> phrase) \<and>
     snd (process_voice_command E urandom path) \<noteq> Inr [(''error'', PStr ''Failed to transcribe audio'')]"
proof -
  have t: "transcribe_audio E path = fallback_transcription path"
    using assms by (simp add: transcribe_audio_def)
  have n: "transcribe_audio E path \<noteq> []"
    unfolding t by (rule fallback_transcription_nonempty)
  have "snd (process_voice_command E urandom path) \<noteq> Inr [(''error'', PStr ''Failed to transcribe audio'')]"
    using n by (simp add: process_voice_command_def Let_def split: sum.splits)
  with n show ?thesis
    by (simp add: t fallback_transcription_def first_phrase_find)
qed

theorem transcription_without_engine_witness:
  "whisper_model (offline (\<lambda>p. True)) = None \<and>
   transcribe_audio (offline (\<lambda>p. True)) ''clips/Mountain_Test.wav'' = ''I want some mountains'' \<and>
   transcribe_audio (offline (\<lambda>p. True)) ''clips/take1.wav'' = ''Create hilly terrain''"
proof -
  have h: "whisper_model (offline (\<lambda>p. True)) = None"
    by (simp add: offline_def)
  have "lower (path_stem ''clips/Mountain_Test.wav'') = ''mountain_test''"
    "lower (path_stem ''clips/take1.wav'') = ''take1''"
    by (simp_all add: path_stem_def path_name_def lower_def lower_char_def)
  with transcription_without_engine [OF h, of "''clips/Mountain_Test.wav''"]
    transcription_without_engine [OF h, of "''clips/take1.wav''"] h
  show ?thesis
    by (simp add: fallback_phrases_def)
qed

end
